theory Spec2Isabelle
  imports Main
begin

section \<open>Content service (services/geminiService.ts)\<close>

text \<open>
  Every operation of the service builds a prompt, awaits one call of the text-generation
  endpoint inside a \<^verbatim>\<open>try\<close> block and, for the structured operations, hands the
  response text to the platform's \<^verbatim>\<open>JSON.parse\<close>. The prompt plays no part in how the
  outcome is handled, so each operation below takes the outcome of the awaited call as its
  argument: \<open>Inl e\<close> when the call threw the exception \<open>e\<close>, \<open>Inr text\<close> when it
  answered with \<^verbatim>\<open>response.text\<close>. Of an exception the \<^verbatim>\<open>catch\<close> blocks only ever ask
  whether it is an instance of \<^verbatim>\<open>SyntaxError\<close>; \<open>OtherError\<close> stands for every exception
  that is not. The logging to the console is left out.

  \<^verbatim>\<open>JSON.parse\<close> is a built-in of the platform and not code of the repository. It is a
  parameter \<open>JSON_parse\<close> of every operation that calls it; \<open>None\<close> stands for the
  \<^verbatim>\<open>SyntaxError\<close> it throws on text that is not JSON. In the same way \<^verbatim>\<open>String.trim\<close>
  is the parameter \<open>trim\<close>.

  An operation returns \<open>Inr v\<close> when its promise resolves with \<open>v\<close> and \<open>Inl (Error m)\<close>
  when it rejects with \<^verbatim>\<open>new Error(m)\<close>. The messages are Turkish; their letters outside
  ASCII are written here with the ASCII base letter.
\<close>

datatype json =
    JNull
  | JBool bool
  | JNumber int
  | JString string
  | JArray "json list"
  | JObject "(string \<times> json) list"

datatype exn = SyntaxError | OtherError

datatype error = Error string

text \<open>The body of a \<^verbatim>\<open>try\<close> block of the form
  \<^verbatim>\<open>const response = await ai.models.generateContent(...); const parsed = JSON.parse(response.text); return parsed;\<close>\<close>

definition await_and_parse :: "(string \<Rightarrow> json option) \<Rightarrow> exn + string \<Rightarrow> exn + json" where
  "await_and_parse JSON_parse response =
     (case response of
        Inl e \<Rightarrow> Inl e
      | Inr text \<Rightarrow>
          (case JSON_parse text of
             None \<Rightarrow> Inl SyntaxError
           | Some parsed \<Rightarrow> Inr parsed))"

text \<open>\<^verbatim>\<open>generateText\<close> (lines 12 to 25).\<close>

definition generateText :: "exn + string \<Rightarrow> error + string" where
  "generateText response =
     (case response of
        Inr text \<Rightarrow> Inr text
      | Inl e \<Rightarrow> Inl (Error ''Metin olusturulurken bir hata olustu. Lutfen tekrar deneyin.''))"

text \<open>\<^verbatim>\<open>s.replace(/^"|"$/g, '')\<close>: one leading and one trailing double quote are removed.\<close>

definition strip_quotes :: "string \<Rightarrow> string" where
  "strip_quotes s =
     (let s1 = (case s of c # cs \<Rightarrow> (if c = CHR 0x22 then cs else s) | [] \<Rightarrow> s)
      in if s1 \<noteq> [] \<and> last s1 = CHR 0x22 then butlast s1 else s1)"

text \<open>\<^verbatim>\<open>generateRandomTheme\<close> (lines 27 to 40).\<close>

definition generateRandomTheme :: "(string \<Rightarrow> string) \<Rightarrow> exn + string \<Rightarrow> error + string" where
  "generateRandomTheme trim response =
     (case response of
        Inr text \<Rightarrow> Inr (strip_quotes (trim text))
      | Inl e \<Rightarrow> Inl (Error ''Rastgele tema olusturulurken bir hata olustu.''))"

text \<open>\<^verbatim>\<open>translateText\<close> (lines 42 to 54) and \<^verbatim>\<open>translateWord\<close> (lines 56 to 68).\<close>

definition translateText :: "exn + string \<Rightarrow> error + string" where
  "translateText response =
     (case response of
        Inr text \<Rightarrow> Inr text
      | Inl e \<Rightarrow> Inl (Error ''Ceviri sirasinda bir hata olustu.''))"

definition translateWord :: "(string \<Rightarrow> string) \<Rightarrow> exn + string \<Rightarrow> error + string" where
  "translateWord trim response =
     (case response of
        Inr text \<Rightarrow> Inr (trim text)
      | Inl e \<Rightarrow> Inl (Error ''Kelime cevirisi sirasinda bir hata olustu.''))"

text \<open>\<^verbatim>\<open>translateTextSentenceBySentence\<close> (lines 70 to 98): one message for whatever was
  caught.\<close>

definition translateTextSentenceBySentence ::
  "(string \<Rightarrow> json option) \<Rightarrow> exn + string \<Rightarrow> error + json" where
  "translateTextSentenceBySentence JSON_parse response =
     (case await_and_parse JSON_parse response of
        Inr parsed \<Rightarrow> Inr parsed
      | Inl e \<Rightarrow> Inl (Error ''Cumle cevirisi sirasinda bir hata olustu.''))"

text \<open>\<^verbatim>\<open>generateQuiz\<close> (lines 101 to 142): the \<^verbatim>\<open>catch\<close> block tests
  \<^verbatim>\<open>error instanceof SyntaxError\<close>.\<close>

definition generateQuiz :: "(string \<Rightarrow> json option) \<Rightarrow> exn + string \<Rightarrow> error + json" where
  "generateQuiz JSON_parse response =
     (case await_and_parse JSON_parse response of
        Inr parsed \<Rightarrow> Inr parsed
      | Inl e \<Rightarrow>
          (if e = SyntaxError
           then Inl (Error ''Test olusturulamadi cunku modelden gecersiz bir yanit alindi. Lutfen farkli bir metinle tekrar deneyin.'')
           else Inl (Error ''Test olusturulurken bir hata olustu.'')))"

text \<open>\<^verbatim>\<open>explainAndExampleWord\<close> (lines 144 to 172), \<^verbatim>\<open>generateClozeTest\<close> (lines 174 to
  203), \<^verbatim>\<open>generateDistractors\<close> (lines 205 to 227) and \<^verbatim>\<open>generateClozeTestFromText\<close>
  (lines 229 to 257).\<close>

definition explainAndExampleWord ::
  "(string \<Rightarrow> json option) \<Rightarrow> exn + string \<Rightarrow> error + json" where
  "explainAndExampleWord JSON_parse response =
     (case await_and_parse JSON_parse response of
        Inr parsed \<Rightarrow> Inr parsed
      | Inl e \<Rightarrow> Inl (Error ''Kelime aciklanirken bir hata olustu.''))"

definition generateClozeTest :: "(string \<Rightarrow> json option) \<Rightarrow> exn + string \<Rightarrow> error + json" where
  "generateClozeTest JSON_parse response =
     (case await_and_parse JSON_parse response of
        Inr parsed \<Rightarrow> Inr parsed
      | Inl e \<Rightarrow> Inl (Error ''Ogrenme modu icerigi olusturulurken bir hata olustu.''))"

definition generateDistractors ::
  "(string \<Rightarrow> json option) \<Rightarrow> exn + string \<Rightarrow> error + json" where
  "generateDistractors JSON_parse response =
     (case await_and_parse JSON_parse response of
        Inr parsed \<Rightarrow> Inr parsed
      | Inl e \<Rightarrow> Inl (Error ''Alternatif siklar olusturulurken bir hata olustu.''))"

definition generateClozeTestFromText ::
  "(string \<Rightarrow> json option) \<Rightarrow> exn + string \<Rightarrow> error + json" where
  "generateClozeTestFromText JSON_parse response =
     (case await_and_parse JSON_parse response of
        Inr parsed \<Rightarrow> Inr parsed
      | Inl e \<Rightarrow> Inl (Error ''Metinden ogrenme modu icerigi olusturulurken bir hata olustu.''))"

subsection \<open>Shapes the callers read from a parsed value\<close>

text \<open>
  The views cut a cloze text at the blank marker with \<^verbatim>\<open>clozeText.split('[___]')\<close>: the
  pieces between the non-overlapping occurrences of the separator, found from left to
  right. With the empty separator \<^verbatim>\<open>split\<close> gives one piece per character.
\<close>

function split_from :: "string \<Rightarrow> string \<Rightarrow> string \<Rightarrow> string list" where
  "split_from sep cur s =
     (if sep = [] then map (\<lambda>c. [c]) s
      else if s = [] then [cur]
      else if take (length sep) s = sep then cur # split_from sep [] (drop (length sep) s)
      else split_from sep (cur @ [hd s]) (tl s))"
  by pat_completeness auto
termination
  by (relation "measure (\<lambda>(sep, cur, s). length s)") auto

definition split :: "string \<Rightarrow> string \<Rightarrow> string list" where
  "split sep s = split_from sep [] s"

definition blankMarker :: string where
  "blankMarker = ''[___]''"

definition countOf :: "string \<Rightarrow> string \<Rightarrow> nat" where
  "countOf s marker = length (split marker s) - 1"

fun field :: "string \<Rightarrow> json \<Rightarrow> json option" where
  "field k (JObject kvs) = map_of kvs k"
| "field k _ = None"

fun string_items :: "json \<Rightarrow> string list option" where
  "string_items (JArray []) = Some []"
| "string_items (JArray (JString s # vs)) =
     (case string_items (JArray vs) of None \<Rightarrow> None | Some ss \<Rightarrow> Some (s # ss))"
| "string_items _ = None"

text \<open>A parsed value is a well-formed cloze exercise when it is an object whose
  \<^verbatim>\<open>clozeText\<close> is a string, whose \<^verbatim>\<open>answers\<close> is an array of strings, and the text
  holds as many blank markers as there are answers.\<close>

definition cloze_ok :: "json \<Rightarrow> bool" where
  "cloze_ok v =
     (case (field ''clozeText'' v, field ''answers'' v) of
        (Some (JString clozeText), Some a) \<Rightarrow>
          (case string_items a of
             Some answers \<Rightarrow> countOf clozeText blankMarker = length answers
           | None \<Rightarrow> False)
      | _ \<Rightarrow> False)"

text \<open>A parsed value is a well-formed quiz when it is an array of objects, each with an
  \<^verbatim>\<open>options\<close> array of exactly four pairwise different strings and a string
  \<^verbatim>\<open>correctAnswer\<close> that is one of them.\<close>

definition question_ok :: "json \<Rightarrow> bool" where
  "question_ok q =
     (case (field ''options'' q, field ''correctAnswer'' q) of
        (Some opts, Some (JString c)) \<Rightarrow>
          (case string_items opts of
             Some os \<Rightarrow> length os = 4 \<and> distinct os \<and> c \<in> set os
           | None \<Rightarrow> False)
      | _ \<Rightarrow> False)"

definition quiz_ok :: "json \<Rightarrow> bool" where
  "quiz_ok v = (case v of JArray qs \<Rightarrow> list_all question_ok qs | _ \<Rightarrow> False)"

text \<open>A parsed value is a well-formed translation when it is an array of objects that
  each carry a string \<^verbatim>\<open>german\<close> and a string \<^verbatim>\<open>turkish\<close>.\<close>

definition pair_ok :: "json \<Rightarrow> bool" where
  "pair_ok p =
     (case (field ''german'' p, field ''turkish'' p) of
        (Some (JString g), Some (JString t)) \<Rightarrow> True
      | _ \<Rightarrow> False)"

definition pairs_ok :: "json \<Rightarrow> bool" where
  "pairs_ok v = (case v of JArray ps \<Rightarrow> list_all pair_ok ps | _ \<Rightarrow> False)"

section \<open>Exercise orchestrator (the App component)\<close>

subsection \<open>Data (types.ts and the component's state)\<close>

datatype CEFRLevel = A2 | B1 | B2 | C1

fun level_text :: "CEFRLevel \<Rightarrow> string" where
  "level_text A2 = ''A2''"
| "level_text B1 = ''B1''"
| "level_text B2 = ''B2''"
| "level_text C1 = ''C1''"

record TranslationPair =
  german :: string
  turkish :: string

record FavoriteWord =
  german :: string
  turkish :: string

record FavoriteList =
  id' :: string
  name :: string
  words :: "FavoriteWord list"

record QuizQuestion =
  question :: string
  options :: "string list"
  correctAnswer :: string

record SavedText =
  title :: string
  "text" :: string
  level :: CEFRLevel
  "translations" :: "TranslationPair list"
  quiz :: "QuizQuestion list"

record ClozeData =
  clozeText :: string
  answers :: "string list"

text \<open>The payload of the add-to-list popup (a word and screen coordinates) is never read
  by the handlers below.\<close>

typedecl ModalData

text \<open>
  The \<^verbatim>\<open>useState\<close> cells of the component that the handlers below read or write. A cell
  of type \<^verbatim>\<open>T | null\<close> is an option; \<^verbatim>\<open>quizAnswers\<close> is an object keyed by question
  index, where a missing key reads as \<^verbatim>\<open>undefined\<close>.
\<close>

record App =
  level :: CEFRLevel
  theme :: string
  wordCount :: nat
  mood :: string
  isLoading :: bool
  error :: "string option"
  generatedText :: string
  translatedSentences :: "TranslationPair list"
  quizQuestions :: "QuizQuestion list"
  favoriteLists :: "FavoriteList list"
  savedTexts :: "SavedText list"
  addToListModal :: "ModalData option"
  currentQuizQuestion :: nat
  quizAnswers :: "nat \<rightharpoonup> string"
  quizScore :: "nat option"
  isSpeaking :: bool
  speakingSentenceIndex :: "nat option"
  isTextClozeMode :: bool
  textClozeData :: "ClozeData option"

subsection \<open>Generating and starting over\<close>

text \<open>The statements of \<^verbatim>\<open>handleGenerate\<close> before its first \<^verbatim>\<open>await\<close> (lines 122 to
  134 of the component): the state in which the generation calls are issued.\<close>

definition handleGenerate_reset :: "CEFRLevel \<Rightarrow> string \<Rightarrow> string \<Rightarrow> App \<Rightarrow> App" where
  "handleGenerate_reset levelToUse themeToUse moodToUse s =
     s\<lparr>isLoading := True,
       error := None,
       generatedText := [],
       translatedSentences := [],
       quizQuestions := [],
       quizScore := None,
       currentQuizQuestion := 0,
       quizAnswers := Map.empty,
       isTextClozeMode := False,
       textClozeData := None,
       level := levelToUse,
       theme := themeToUse,
       mood := moodToUse\<rparr>"

text \<open>The shared \<^verbatim>\<open>catch\<close> and \<^verbatim>\<open>finally\<close> of \<^verbatim>\<open>handleGenerate\<close> (lines 143 to 148).\<close>

definition generate_failed :: "App \<Rightarrow> App" where
  "generate_failed s =
     s\<lparr>error := Some ''Icerik olusturulurken bir hata olustu. Lutfen tekrar deneyin.'',
       isLoading := False\<rparr>"

text \<open>
  The whole handler (lines 121 to 149). The three arguments after the request are what the three service
  calls gave, read at the types the state cells declare; a later call is only made when
  the earlier ones succeeded. (The guards \<^verbatim>\<open>if (sentences)\<close> and \<^verbatim>\<open>if (quiz)\<close> hold
  for every array.)
\<close>

definition handleGenerate ::
  "CEFRLevel \<Rightarrow> string \<Rightarrow> string \<Rightarrow> error + string \<Rightarrow> error + TranslationPair list \<Rightarrow>
   error + QuizQuestion list \<Rightarrow> App \<Rightarrow> App" where
  "handleGenerate levelToUse themeToUse moodToUse text_result sentences_result quiz_result s =
     (let s0 = handleGenerate_reset levelToUse themeToUse moodToUse s in
      case text_result of
        Inl e \<Rightarrow> generate_failed s0
      | Inr txt \<Rightarrow>
          (let s1 = s0\<lparr>generatedText := txt\<rparr> in
           case sentences_result of
             Inl e \<Rightarrow> generate_failed s1
           | Inr sentences \<Rightarrow>
               (let s2 = s1\<lparr>translatedSentences := sentences\<rparr> in
                case quiz_result of
                  Inl e \<Rightarrow> generate_failed s2
                | Inr qz \<Rightarrow> s2\<lparr>quizQuestions := qz, isLoading := False\<rparr>)))"

text \<open>\<^verbatim>\<open>handleStartNewStory\<close> (lines 164 to 182); \<open>MOODS_0\<close> is \<^verbatim>\<open>MOODS[0]\<close> of the constants module. The
  handler also cancels the platform's speech synthesis when it is speaking.\<close>

definition handleStartNewStory :: "string \<Rightarrow> App \<Rightarrow> App" where
  "handleStartNewStory MOODS_0 s =
     s\<lparr>isSpeaking := False,
       speakingSentenceIndex := None,
       generatedText := [],
       translatedSentences := [],
       quizQuestions := [],
       error := None,
       quizScore := None,
       currentQuizQuestion := 0,
       quizAnswers := Map.empty,
       isTextClozeMode := False,
       textClozeData := None,
       level := A2,
       theme := [],
       wordCount := 150,
       mood := MOODS_0\<rparr>"

subsection \<open>Favorite lists\<close>

text \<open>\<^verbatim>\<open>handleAddWordToList\<close> (lines 251 to 263) and \<^verbatim>\<open>handleRemoveWordFromList\<close> (lines
  265 to 272). \<^verbatim>\<open>String.toLowerCase\<close> is a built-in of the platform; it is the parameter
  \<open>toLowerCase\<close> of the handlers that call it.\<close>

definition handleAddWordToList ::
  "(string \<Rightarrow> string) \<Rightarrow> FavoriteWord \<Rightarrow> string \<Rightarrow> App \<Rightarrow> App" where
  "handleAddWordToList toLowerCase word listId s =
     s\<lparr>favoriteLists :=
         map (\<lambda>list.
                if id' list = listId then
                  (if list_ex (\<lambda>w. toLowerCase (FavoriteWord.german w) =
                                    toLowerCase (FavoriteWord.german word)) (words list)
                   then list
                   else list\<lparr>words := words list @ [word]\<rparr>)
                else list)
             (favoriteLists s),
       addToListModal := None\<rparr>"

definition handleRemoveWordFromList ::
  "(string \<Rightarrow> string) \<Rightarrow> string \<Rightarrow> string \<Rightarrow> App \<Rightarrow> App" where
  "handleRemoveWordFromList toLowerCase germanWord listId s =
     s\<lparr>favoriteLists :=
         map (\<lambda>list.
                if id' list = listId then
                  list\<lparr>words := filter (\<lambda>w. toLowerCase (FavoriteWord.german w) \<noteq>
                                              toLowerCase germanWord) (words list)\<rparr>
                else list)
             (favoriteLists s)\<rparr>"

subsection \<open>The archive of saved texts\<close>

text \<open>\<^verbatim>\<open>isTextSaved\<close> (line 279), \<^verbatim>\<open>handleSaveText\<close> (lines 281 to 291, where the empty
  string is the one falsy text) and \<^verbatim>\<open>handleDeleteText\<close> (lines 308 to 310).\<close>

definition isTextSaved :: "App \<Rightarrow> bool" where
  "isTextSaved s = list_ex (\<lambda>t. SavedText.text t = generatedText s) (savedTexts s)"

definition handleSaveText :: "App \<Rightarrow> App" where
  "handleSaveText s =
     (if generatedText s = [] \<or> isTextSaved s then s
      else
        (let newSavedText =
               \<lparr>title = theme s,
                text = generatedText s,
                level = level s,
                translations = translatedSentences s,
                quiz = quizQuestions s\<rparr>
         in s\<lparr>savedTexts := newSavedText # savedTexts s\<rparr>))"

definition handleDeleteText :: "SavedText \<Rightarrow> App \<Rightarrow> App" where
  "handleDeleteText textToDelete s =
     s\<lparr>savedTexts :=
         filter (\<lambda>t. SavedText.text t \<noteq> SavedText.text textToDelete) (savedTexts s)\<rparr>"

text \<open>\<^verbatim>\<open>Array.join\<close>: the separator stands between consecutive elements.\<close>

fun join :: "string \<Rightarrow> string list \<Rightarrow> string" where
  "join sep [] = []"
| "join sep [x] = x"
| "join sep (x # y # ys) = x @ sep @ join sep (y # ys)"

definition newline :: string where
  "newline = [CHR 0x0A]"

text \<open>The template literal of the export (line 315), one per saved text.\<close>

definition export_block :: "SavedText \<Rightarrow> string" where
  "export_block t =
     ''--- '' @ title t @ '' ('' @ level_text (SavedText.level t) @ '') ---'' @ newline @ newline
       @ SavedText.text t @ newline @ newline"

text \<open>\<^verbatim>\<open>handleExportTexts\<close> (lines 312 to 324) changes no state; its effect is the download of one file. The
  result is the content of that file, \<open>None\<close> when the handler returns without one.\<close>

definition handleExportTexts :: "App \<Rightarrow> string option" where
  "handleExportTexts s =
     (if length (savedTexts s) = 0 then None
      else Some (join newline (map export_block (savedTexts s))))"

subsection \<open>The quiz\<close>

text \<open>\<^verbatim>\<open>handleAnswer\<close> (line 326).\<close>

definition handleAnswer :: "nat \<Rightarrow> string \<Rightarrow> App \<Rightarrow> App" where
  "handleAnswer questionIndex answer s =
     s\<lparr>quizAnswers := (quizAnswers s)(questionIndex \<mapsto> answer)\<rparr>"

text \<open>The \<^verbatim>\<open>forEach\<close> of \<^verbatim>\<open>submitQuiz\<close> (lines 328 to 334): the questions still to visit, the index of the
  first of them and the score so far; \<open>recorded\<close> is the \<^verbatim>\<open>quizAnswers\<close> cell.\<close>

fun forEach_score :: "(nat \<rightharpoonup> string) \<Rightarrow> QuizQuestion list \<Rightarrow> nat \<Rightarrow> nat \<Rightarrow> nat" where
  "forEach_score recorded [] index score = score"
| "forEach_score recorded (q # qs) index score =
     forEach_score recorded qs (index + 1)
       (if recorded index = Some (correctAnswer q) then score + 1 else score)"

definition submitQuiz :: "App \<Rightarrow> App" where
  "submitQuiz s = s\<lparr>quizScore := Some (forEach_score (quizAnswers s) (quizQuestions s) 0 0)\<rparr>"

definition resetQuiz :: "App \<Rightarrow> App" where
  "resetQuiz s = s\<lparr>quizScore := None, currentQuizQuestion := 0, quizAnswers := Map.empty\<rparr>"

section \<open>Concrete inputs\<close>

text \<open>Lower-casing of the letters A to Z, where it agrees with the platform's
  \<^verbatim>\<open>toLowerCase\<close>; used wherever a handler is run on a concrete state.\<close>

definition toLowerCase_ascii :: "string \<Rightarrow> string" where
  "toLowerCase_ascii =
     map (\<lambda>c. case map_of (zip ''ABCDEFGHIJKLMNOPQRSTUVWXYZ'' ''abcdefghijklmnopqrstuvwxyz'') c of
                 Some d \<Rightarrow> d
               | None \<Rightarrow> c)"

text \<open>A reading of \<^verbatim>\<open>JSON.parse\<close> that is known at one text only: it gives the value
  \<open>v\<close> for the text \<open>known\<close> and rejects every other text.\<close>

definition parse_at :: "string \<Rightarrow> json \<Rightarrow> string \<Rightarrow> json option" where
  "parse_at known v txt = (if txt = known then Some v else None)"

text \<open>A cloze answer with three blank markers and two answers, and its JSON text.\<close>

definition cloze_reply :: string where
  \<open>cloze_reply = ''{"clozeText":"Der [___] ist [___] und [___].","answers":["Hund","gross"]}''\<close>

definition cloze_value :: json where
  "cloze_value =
     JObject [(''clozeText'', JString ''Der [___] ist [___] und [___].''),
              (''answers'', JArray [JString ''Hund'', JString ''gross''])]"

text \<open>A quiz answer whose one question has three options, two of them equal, and a correct
  answer that is none of them.\<close>

definition quiz_reply :: string where
  \<open>quiz_reply = ''[{"question":"Wer ist gross?","options":["Hund","Hund","Katze"],"correctAnswer":"Maus"}]''\<close>

definition quiz_value :: json where
  "quiz_value =
     JArray [JObject [(''question'', JString ''Wer ist gross?''),
                      (''options'', JArray [JString ''Hund'', JString ''Hund'', JString ''Katze'']),
                      (''correctAnswer'', JString ''Maus'')]]"

text \<open>Two translation answers: an array whose entry lacks \<^verbatim>\<open>turkish\<close>, and a single pair
  that is not wrapped in an array.\<close>

definition pairs_reply :: string where
  \<open>pairs_reply = ''[{"german":"Der Hund ist gross."}]''\<close>

definition pairs_value :: json where
  "pairs_value = JArray [JObject [(''german'', JString ''Der Hund ist gross.'')]]"

definition object_reply :: string where
  \<open>object_reply = ''{"german":"Hallo","turkish":"Merhaba"}''\<close>

definition object_value :: json where
  "object_value = JObject [(''german'', JString ''Hallo''), (''turkish'', JString ''Merhaba'')]"

text \<open>An answer in prose, which is not JSON.\<close>

definition prose_reply :: string where
  "prose_reply = ''Entschuldigung, das kann ich nicht.''"

text \<open>A state of the component in the middle of a session: a text is shown and its second
  sentence is being read aloud, two of three quiz questions are answered (the first one
  correctly), there are two favorite lists and two saved texts.\<close>

definition demo :: App where
  "demo =
     \<lparr>level = B1,
      theme = ''Berlin'',
      wordCount = 150,
      mood = ''neutral'',
      isLoading = False,
      error = None,
      generatedText = ''Der Hund ist gross. Er spielt.'',
      translatedSentences =
        [\<lparr>TranslationPair.german = ''Der Hund ist gross.'', TranslationPair.turkish = ''Kopek buyuk.''\<rparr>,
         \<lparr>TranslationPair.german = ''Er spielt.'', TranslationPair.turkish = ''O oynuyor.''\<rparr>],
      quizQuestions =
        [\<lparr>question = ''Wer ist gross?'', options = [''Hund'', ''Katze'', ''Maus'', ''Vogel''],
          correctAnswer = ''Hund''\<rparr>,
         \<lparr>question = ''Was macht er?'', options = [''spielen'', ''essen'', ''lesen'', ''gehen''],
          correctAnswer = ''spielen''\<rparr>,
         \<lparr>question = ''Wie ist der Hund?'', options = [''gross'', ''klein'', ''alt'', ''neu''],
          correctAnswer = ''gross''\<rparr>],
      favoriteLists =
        [\<lparr>id' = ''l1'', name = ''Tiere'',
          words = [\<lparr>german = ''Hund'', turkish = ''kopek''\<rparr>,
                   \<lparr>german = ''Katze'', turkish = ''kedi''\<rparr>,
                   \<lparr>german = ''HUND'', turkish = ''it''\<rparr>]\<rparr>,
         \<lparr>id' = ''l2'', name = ''Verben'',
          words = [\<lparr>german = ''spielen'', turkish = ''oynamak''\<rparr>]\<rparr>],
      savedTexts =
        [\<lparr>title = ''Wetter'', text = ''Es regnet.'', level = A2, translations = [], quiz = []\<rparr>,
         \<lparr>title = ''Stadt'', text = ''Berlin ist gross.'', level = C1, translations = [], quiz = []\<rparr>],
      addToListModal = None,
      currentQuizQuestion = 2,
      quizAnswers = [0 \<mapsto> ''Hund'', 2 \<mapsto> ''klein''],
      quizScore = None,
      isSpeaking = True,
      speakingSentenceIndex = Some 1,
      isTextClozeMode = False,
      textClozeData = Some \<lparr>clozeText = ''Der [___] ist gross.'', answers = [''Hund'']\<rparr>\<rparr>"

section \<open>Properties of the orchestrator\<close>

subsection \<open>Quiz scoring\<close>

lemma forEach_score_zip:
  "forEach_score recorded qs i sc =
     sc + length (filter (\<lambda>(j, q). recorded j = Some (correctAnswer q)) (zip [i..<i + length qs] qs))"
proof (induction qs arbitrary: i sc)
  case Nil
  then show ?case by simp
next
  case (Cons q qs)
  have "[i..<i + length (q # qs)] = i # [Suc i..<Suc i + length qs]"
    by (subst upt_rec) simp
  then show ?case using Cons.IH[of "i + 1"] by simp
qed

lemma forEach_score_card:
  "forEach_score recorded qs 0 0 =
     card {i. i < length qs \<and> recorded i = Some (correctAnswer (qs ! i))}"
proof -
  have "forEach_score recorded qs 0 0 =
     length (filter (\<lambda>(j, q). recorded j = Some (correctAnswer q)) (zip [0..<length qs] qs))"
    using forEach_score_zip[of recorded qs 0 0] by simp
  also have "\<dots> = card {i. i < length qs \<and> recorded i = Some (correctAnswer (qs ! i))}"
    unfolding length_filter_conv_card
    by (rule arg_cong[where f = card]) auto
  finally show ?thesis .
qed

text \<open>
  Claim C3. For every question list and every answer map, partial or not, the score that
  \<^verbatim>\<open>submitQuiz\<close> records is the number of question indices whose recorded answer equals
  the question's correct answer. An index without a recorded answer is never among the
  counted ones, so the score is at most the number of answered questions.
\<close>

theorem submitQuiz_score:
  "quizScore (submitQuiz s) =
     Some (card {i. i < length (quizQuestions s) \<and>
                    quizAnswers s i = Some (correctAnswer (quizQuestions s ! i))})
   \<and> (\<forall>i. quizAnswers s i = None \<longrightarrow>
          i \<notin> {i. i < length (quizQuestions s) \<and>
                    quizAnswers s i = Some (correctAnswer (quizQuestions s ! i))})
   \<and> the (quizScore (submitQuiz s)) \<le>
       card {i. i < length (quizQuestions s) \<and> quizAnswers s i \<noteq> None}"
proof -
  let ?C = "{i. i < length (quizQuestions s) \<and>
                quizAnswers s i = Some (correctAnswer (quizQuestions s ! i))}"
  let ?A = "{i. i < length (quizQuestions s) \<and> quizAnswers s i \<noteq> None}"
  have sc: "quizScore (submitQuiz s) = Some (card ?C)"
    by (simp add: submitQuiz_def forEach_score_card)
  have "?C \<subseteq> ?A" by auto
  moreover have "finite ?A" by simp
  ultimately have "card ?C \<le> card ?A" by (rule card_mono[rotated])
  with sc show ?thesis by simp
qed

theorem submitQuiz_score_witness:
  "quizAnswers demo 1 = None
   \<and> quizScore (submitQuiz demo) = Some 1
   \<and> card {i. i < length (quizQuestions demo) \<and>
               quizAnswers demo i = Some (correctAnswer (quizQuestions demo ! i))} = 1
   \<and> 1 \<notin> {i. i < length (quizQuestions demo) \<and>
               quizAnswers demo i = Some (correctAnswer (quizQuestions demo ! i))}"
proof -
  have unanswered: "quizAnswers demo 1 = None"
    by (simp add: demo_def)
  have run: "quizScore (submitQuiz demo) = Some 1"
    by (simp add: submitQuiz_def demo_def)
  from submitQuiz_score[of demo] run unanswered show ?thesis
    by simp
qed

subsection \<open>Favorite lists\<close>

lemma favoriteLists_handleAddWordToList:
  "favoriteLists (handleAddWordToList lc word listId s) =
     map (\<lambda>list.
            if id' list = listId then
              (if list_ex (\<lambda>w. lc (FavoriteWord.german w) = lc (FavoriteWord.german word)) (words list)
               then list
               else list\<lparr>words := words list @ [word]\<rparr>)
            else list)
         (favoriteLists s)"
  by (simp add: handleAddWordToList_def)

text \<open>
  Claim C6. Adding a word to a favorite list is idempotent under case-insensitive term
  match. Wherever a list with the given id already holds a word whose German term equals
  the new word's term after lower-casing, the add leaves that list as it is. And after a
  word has been added, adding a word with the same lower-cased term to the same list is a
  no-op: the state does not change, and so neither do the sizes of the lists.
\<close>

theorem handleAddWordToList_idempotent:
  "(\<forall>i < length (favoriteLists s).
       id' (favoriteLists s ! i) = listId \<and>
       (\<exists>w \<in> set (words (favoriteLists s ! i)).
            toLowerCase (FavoriteWord.german w) = toLowerCase (FavoriteWord.german word)) \<longrightarrow>
       favoriteLists (handleAddWordToList toLowerCase word listId s) ! i = favoriteLists s ! i)
   \<and> (toLowerCase (FavoriteWord.german word') = toLowerCase (FavoriteWord.german word) \<longrightarrow>
        handleAddWordToList toLowerCase word' listId (handleAddWordToList toLowerCase word listId s) =
          handleAddWordToList toLowerCase word listId s
        \<and> map (\<lambda>l. length (words l))
              (favoriteLists (handleAddWordToList toLowerCase word' listId
                                (handleAddWordToList toLowerCase word listId s))) =
            map (\<lambda>l. length (words l)) (favoriteLists (handleAddWordToList toLowerCase word listId s)))"
proof -
  have first: "\<forall>i < length (favoriteLists s).
       id' (favoriteLists s ! i) = listId \<and>
       (\<exists>w \<in> set (words (favoriteLists s ! i)).
            toLowerCase (FavoriteWord.german w) = toLowerCase (FavoriteWord.german word)) \<longrightarrow>
       favoriteLists (handleAddWordToList toLowerCase word listId s) ! i = favoriteLists s ! i"
    by (auto simp: favoriteLists_handleAddWordToList list_ex_iff)
  have second: "handleAddWordToList toLowerCase word' listId (handleAddWordToList toLowerCase word listId s) =
          handleAddWordToList toLowerCase word listId s"
    if same: "toLowerCase (FavoriteWord.german word') = toLowerCase (FavoriteWord.german word)"
  proof -
    have "map (\<lambda>list.
            if id' list = listId then
              (if list_ex (\<lambda>w. toLowerCase (FavoriteWord.german w) =
                                toLowerCase (FavoriteWord.german word')) (words list)
               then list
               else list\<lparr>words := words list @ [word']\<rparr>)
            else list)
         (favoriteLists (handleAddWordToList toLowerCase word listId s))
       = favoriteLists (handleAddWordToList toLowerCase word listId s)"
      unfolding favoriteLists_handleAddWordToList map_map
      by (rule map_idI[THEN trans[rotated]], rule refl) (auto simp: same list_ex_iff)
    then show ?thesis
      by (simp add: handleAddWordToList_def)
  qed
  show ?thesis using first second by simp
qed

theorem handleAddWordToList_idempotent_witness:
  "0 < length (favoriteLists demo)
   \<and> id' (favoriteLists demo ! 0) = ''l1''
   \<and> list_ex (\<lambda>w. toLowerCase_ascii (FavoriteWord.german w) = toLowerCase_ascii ''hund'')
         (words (favoriteLists demo ! 0))
   \<and> favoriteLists (handleAddWordToList toLowerCase_ascii \<lparr>german = ''hund'', turkish = ''kopek''\<rparr> ''l1'' demo) ! 0 =
       favoriteLists demo ! 0
   \<and> toLowerCase_ascii ''MAUS'' = toLowerCase_ascii ''Maus''
   \<and> handleAddWordToList toLowerCase_ascii \<lparr>german = ''MAUS'', turkish = ''sican''\<rparr> ''l1''
         (handleAddWordToList toLowerCase_ascii \<lparr>german = ''Maus'', turkish = ''fare''\<rparr> ''l1'' demo) =
       handleAddWordToList toLowerCase_ascii \<lparr>german = ''Maus'', turkish = ''fare''\<rparr> ''l1'' demo
   \<and> map (\<lambda>l. length (words l))
         (favoriteLists (handleAddWordToList toLowerCase_ascii \<lparr>german = ''MAUS'', turkish = ''sican''\<rparr> ''l1''
            (handleAddWordToList toLowerCase_ascii \<lparr>german = ''Maus'', turkish = ''fare''\<rparr> ''l1'' demo))) = [4, 1]"
proof -
  have present: "list_ex (\<lambda>w. toLowerCase_ascii (FavoriteWord.german w) = toLowerCase_ascii ''hund'')
         (words (favoriteLists demo ! 0))"
    by (simp add: demo_def toLowerCase_ascii_def)
  have same: "toLowerCase_ascii ''MAUS'' = toLowerCase_ascii ''Maus''"
    by (simp add: toLowerCase_ascii_def)
  have sizes: "map (\<lambda>l. length (words l))
         (favoriteLists (handleAddWordToList toLowerCase_ascii \<lparr>german = ''Maus'', turkish = ''fare''\<rparr> ''l1'' demo)) = [4, 1]"
    by (simp add: handleAddWordToList_def demo_def toLowerCase_ascii_def)
  have start: "0 < length (favoriteLists demo) \<and> id' (favoriteLists demo ! 0) = ''l1''"
    by (simp add: demo_def)
  from handleAddWordToList_idempotent[of demo "''l1''" toLowerCase_ascii "\<lparr>german = ''hund'', turkish = ''kopek''\<rparr>"]
    present start
  have unchanged: "favoriteLists (handleAddWordToList toLowerCase_ascii \<lparr>german = ''hund'', turkish = ''kopek''\<rparr> ''l1'' demo) ! 0 =
       favoriteLists demo ! 0"
    by (simp add: list_ex_iff)
  from handleAddWordToList_idempotent[of demo "''l1''" toLowerCase_ascii "\<lparr>german = ''Maus'', turkish = ''fare''\<rparr>"
      "\<lparr>german = ''MAUS'', turkish = ''sican''\<rparr>"] same
  have twice: "handleAddWordToList toLowerCase_ascii \<lparr>german = ''MAUS'', turkish = ''sican''\<rparr> ''l1''
         (handleAddWordToList toLowerCase_ascii \<lparr>german = ''Maus'', turkish = ''fare''\<rparr> ''l1'' demo) =
       handleAddWordToList toLowerCase_ascii \<lparr>german = ''Maus'', turkish = ''fare''\<rparr> ''l1'' demo"
    by simp
  from present start unchanged same twice sizes show ?thesis
    by simp
qed

text \<open>
  Claim C10. Removing a word from a favorite list matches case-insensitively and removes
  every matching entry. In every list with the given id no remaining word has a German
  term equal to the given term after lower-casing, and the remaining words are exactly the
  non-matching words of the list in their original order; the list keeps its id and its
  name. Every list with another id is unchanged, and the lists keep their number and
  their positions.
\<close>

theorem handleRemoveWordFromList_removes_matches:
  "length (favoriteLists (handleRemoveWordFromList toLowerCase germanWord listId s)) =
     length (favoriteLists s)
   \<and> (\<forall>i < length (favoriteLists s).
        (id' (favoriteLists s ! i) = listId \<longrightarrow>
           (\<forall>w \<in> set (words (favoriteLists (handleRemoveWordFromList toLowerCase germanWord listId s) ! i)).
               toLowerCase (FavoriteWord.german w) \<noteq> toLowerCase germanWord)
           \<and> words (favoriteLists (handleRemoveWordFromList toLowerCase germanWord listId s) ! i) =
               filter (\<lambda>w. toLowerCase (FavoriteWord.german w) \<noteq> toLowerCase germanWord)
                 (words (favoriteLists s ! i))
           \<and> id' (favoriteLists (handleRemoveWordFromList toLowerCase germanWord listId s) ! i) = listId
           \<and> name (favoriteLists (handleRemoveWordFromList toLowerCase germanWord listId s) ! i) =
               name (favoriteLists s ! i))
        \<and> (id' (favoriteLists s ! i) \<noteq> listId \<longrightarrow>
             favoriteLists (handleRemoveWordFromList toLowerCase germanWord listId s) ! i =
               favoriteLists s ! i))"
  by (simp add: handleRemoveWordFromList_def)

theorem handleRemoveWordFromList_removes_matches_witness:
  "length (favoriteLists demo) = 2
   \<and> id' (favoriteLists demo ! 0) = ''l1''
   \<and> id' (favoriteLists demo ! 1) \<noteq> ''l1''
   \<and> words (favoriteLists (handleRemoveWordFromList toLowerCase_ascii ''hund'' ''l1'' demo) ! 0) =
       [\<lparr>german = ''Katze'', turkish = ''kedi''\<rparr>]
   \<and> words (favoriteLists (handleRemoveWordFromList toLowerCase_ascii ''hund'' ''l1'' demo) ! 0) =
       filter (\<lambda>w. toLowerCase_ascii (FavoriteWord.german w) \<noteq> toLowerCase_ascii ''hund'')
         (words (favoriteLists demo ! 0))
   \<and> favoriteLists (handleRemoveWordFromList toLowerCase_ascii ''hund'' ''l1'' demo) ! 1 =
       favoriteLists demo ! 1"
proof -
  have start: "length (favoriteLists demo) = 2 \<and> id' (favoriteLists demo ! 0) = ''l1''
      \<and> id' (favoriteLists demo ! 1) \<noteq> ''l1''"
    by (simp add: demo_def)
  have run: "words (favoriteLists (handleRemoveWordFromList toLowerCase_ascii ''hund'' ''l1'' demo) ! 0) =
       [\<lparr>german = ''Katze'', turkish = ''kedi''\<rparr>]"
    by (simp add: handleRemoveWordFromList_def demo_def toLowerCase_ascii_def)
  from handleRemoveWordFromList_removes_matches[of toLowerCase_ascii "''hund''" "''l1''" demo] start run
  show ?thesis
    by simp
qed

subsection \<open>The archive of saved texts\<close>

lemma isTextSaved_iff:
  "isTextSaved s \<longleftrightarrow> (\<exists>t \<in> set (savedTexts s). SavedText.text t = generatedText s)"
  by (simp add: isTextSaved_def list_ex_iff)

lemma handleSaveText_saved:
  "generatedText s \<noteq> [] \<Longrightarrow> isTextSaved (handleSaveText s)"
  by (auto simp: handleSaveText_def isTextSaved_def Let_def)

lemma generatedText_handleSaveText [simp]:
  "generatedText (handleSaveText s) = generatedText s"
  by (simp add: handleSaveText_def Let_def)

text \<open>
  Claim C7. Saving the current text to the archive is idempotent on exact body-text match.
  In every state in which some archive entry has a body equal, as a string, to the
  generated text, saving changes nothing; hence a second save directly after a save
  changes nothing either. Saving a non-empty text that the archive does not hold yet,
  twice, makes the archive one entry longer and leaves exactly one entry with that body.
  Deleting keeps exactly the entries whose body differs from the body of the entry to
  delete, in their order, whatever the other fields are.
\<close>

theorem handleSaveText_idempotent:
  "((\<exists>t \<in> set (savedTexts s). SavedText.text t = generatedText s) \<longrightarrow> handleSaveText s = s)
   \<and> handleSaveText (handleSaveText s) = handleSaveText s
   \<and> (generatedText s \<noteq> [] \<and> \<not> isTextSaved s \<longrightarrow>
        length (savedTexts (handleSaveText (handleSaveText s))) = length (savedTexts s) + 1
        \<and> length (filter (\<lambda>t. SavedText.text t = generatedText s)
                    (savedTexts (handleSaveText (handleSaveText s)))) = 1)
   \<and> savedTexts (handleDeleteText textToDelete s) =
        filter (\<lambda>t. SavedText.text t \<noteq> SavedText.text textToDelete) (savedTexts s)
   \<and> (\<forall>t \<in> set (savedTexts (handleDeleteText textToDelete s)).
          SavedText.text t \<noteq> SavedText.text textToDelete)"
proof -
  have noop: "(\<exists>t \<in> set (savedTexts s). SavedText.text t = generatedText s) \<longrightarrow> handleSaveText s = s"
    by (simp add: handleSaveText_def isTextSaved_iff)
  have twice: "handleSaveText (handleSaveText s) = handleSaveText s"
  proof (cases "generatedText s = []")
    case True
    then show ?thesis by (simp add: handleSaveText_def)
  next
    case False
    then have "isTextSaved (handleSaveText s)" by (rule handleSaveText_saved)
    then show ?thesis by (simp add: handleSaveText_def[of "handleSaveText s"])
  qed
  have one: "length (savedTexts (handleSaveText (handleSaveText s))) = length (savedTexts s) + 1
        \<and> length (filter (\<lambda>t. SavedText.text t = generatedText s)
                    (savedTexts (handleSaveText (handleSaveText s)))) = 1"
    if "generatedText s \<noteq> []" "\<not> isTextSaved s"
  proof -
    from that(2) have "filter (\<lambda>t. SavedText.text t = generatedText s) (savedTexts s) = []"
      by (auto simp: isTextSaved_iff filter_empty_conv)
    with that show ?thesis
      unfolding twice by (simp add: handleSaveText_def Let_def)
  qed
  have del: "savedTexts (handleDeleteText textToDelete s) =
        filter (\<lambda>t. SavedText.text t \<noteq> SavedText.text textToDelete) (savedTexts s)"
    by (simp add: handleDeleteText_def)
  have gone: "\<forall>t \<in> set (savedTexts (handleDeleteText textToDelete s)).
          SavedText.text t \<noteq> SavedText.text textToDelete"
    by (simp add: handleDeleteText_def)
  from noop twice one del gone show ?thesis by blast
qed

theorem handleSaveText_idempotent_witness:
  "generatedText demo \<noteq> []
   \<and> \<not> isTextSaved demo
   \<and> length (savedTexts demo) = 2
   \<and> length (savedTexts (handleSaveText (handleSaveText demo))) = 3
   \<and> length (filter (\<lambda>t. SavedText.text t = generatedText demo)
               (savedTexts (handleSaveText (handleSaveText demo)))) = 1
   \<and> list_ex (\<lambda>t. SavedText.text t = generatedText (handleSaveText demo))
         (savedTexts (handleSaveText demo))
   \<and> handleSaveText (handleSaveText demo) = handleSaveText demo
   \<and> savedTexts (handleDeleteText
         \<lparr>title = ''Regen'', text = ''Es regnet.'', level = B2, translations = [], quiz = []\<rparr> demo) =
       [\<lparr>title = ''Stadt'', text = ''Berlin ist gross.'', level = C1, translations = [], quiz = []\<rparr>]"
proof -
  have start: "generatedText demo \<noteq> [] \<and> \<not> isTextSaved demo \<and> length (savedTexts demo) = 2"
    by (simp add: demo_def isTextSaved_def)
  have saved: "list_ex (\<lambda>t. SavedText.text t = generatedText (handleSaveText demo))
         (savedTexts (handleSaveText demo))"
    by (simp add: handleSaveText_def isTextSaved_def demo_def)
  have del: "filter (\<lambda>t. SavedText.text t \<noteq> ''Es regnet.'') (savedTexts demo) =
       [\<lparr>title = ''Stadt'', text = ''Berlin ist gross.'', level = C1, translations = [], quiz = []\<rparr>]"
    by (simp add: demo_def)
  note inst = handleSaveText_idempotent[of demo
      "\<lparr>title = ''Regen'', text = ''Es regnet.'', level = B2, translations = [], quiz = []\<rparr>"]
  have twice: "handleSaveText (handleSaveText demo) = handleSaveText demo"
    by (rule inst[THEN conjunct2, THEN conjunct1])
  have "generatedText demo \<noteq> [] \<and> \<not> isTextSaved demo \<longrightarrow>
        length (savedTexts (handleSaveText (handleSaveText demo))) = length (savedTexts demo) + 1
        \<and> length (filter (\<lambda>t. SavedText.text t = generatedText demo)
                    (savedTexts (handleSaveText (handleSaveText demo)))) = 1"
    by (rule inst[THEN conjunct2, THEN conjunct2, THEN conjunct1])
  with start have one: "length (savedTexts (handleSaveText (handleSaveText demo))) = 3
        \<and> length (filter (\<lambda>t. SavedText.text t = generatedText demo)
                    (savedTexts (handleSaveText (handleSaveText demo)))) = 1"
    by simp
  have "savedTexts (handleDeleteText
         \<lparr>title = ''Regen'', text = ''Es regnet.'', level = B2, translations = [], quiz = []\<rparr> demo) =
       filter (\<lambda>t. SavedText.text t \<noteq> ''Es regnet.'') (savedTexts demo)"
    using inst[THEN conjunct2, THEN conjunct2, THEN conjunct2, THEN conjunct1] by simp
  with del have gone: "savedTexts (handleDeleteText
         \<lparr>title = ''Regen'', text = ''Es regnet.'', level = B2, translations = [], quiz = []\<rparr> demo) =
       [\<lparr>title = ''Stadt'', text = ''Berlin ist gross.'', level = C1, translations = [], quiz = []\<rparr>]"
    by simp
  from start saved twice one gone show ?thesis
    by (elim conjE, intro conjI) assumption+
qed

lemma join_Cons:
  "join sep (x # xs) = x @ concat (map (\<lambda>y. sep @ y) xs)"
  by (induction xs arbitrary: x) simp_all

text \<open>
  Claim C9 as stated takes the exported file to be the plain concatenation of the titled
  blocks. With the two saved texts of the state \<open>demo\<close> the file is a different string:
  \<^verbatim>\<open>join('\n')\<close> puts one more newline between the two blocks.
\<close>

theorem handleExportTexts_counterexample:
  "savedTexts demo \<noteq> []
   \<and> handleExportTexts demo \<noteq> Some (concat (map export_block (savedTexts demo)))"
  by (simp add: demo_def handleExportTexts_def export_block_def newline_def)

text \<open>
  Claim C9, amended. For every non-empty archive the exported file is made of one titled
  block per saved entry, in archive order, with a single newline between consecutive
  blocks: the first entry's block, then for every further entry a newline and that entry's
  block. A block is the header line \<^verbatim>\<open>--- title (level) ---\<close>, a blank line, the body and
  a blank line.
\<close>

theorem handleExportTexts_blocks:
  "savedTexts s = t # ts \<Longrightarrow>
     handleExportTexts s =
       Some (export_block t @ concat (map (\<lambda>u. newline @ export_block u) ts))
     \<and> export_block t =
         ''--- '' @ title t @ '' ('' @ level_text (SavedText.level t) @ '') ---'' @ newline
         @ newline @ SavedText.text t @ newline @ newline"
  by (simp add: handleExportTexts_def join_Cons comp_def export_block_def)

theorem handleExportTexts_blocks_witness:
  "savedTexts demo =
     \<lparr>title = ''Wetter'', text = ''Es regnet.'', level = A2, translations = [], quiz = []\<rparr> #
     [\<lparr>title = ''Stadt'', text = ''Berlin ist gross.'', level = C1, translations = [], quiz = []\<rparr>]
   \<and> handleExportTexts demo =
       Some (''--- Wetter (A2) ---'' @ newline @ newline @ ''Es regnet.'' @ newline @ newline
             @ newline
             @ ''--- Stadt (C1) ---'' @ newline @ newline @ ''Berlin ist gross.'' @ newline @ newline)"
proof -
  have start: "savedTexts demo =
     \<lparr>title = ''Wetter'', text = ''Es regnet.'', level = A2, translations = [], quiz = []\<rparr> #
     [\<lparr>title = ''Stadt'', text = ''Berlin ist gross.'', level = C1, translations = [], quiz = []\<rparr>]"
    by (simp add: demo_def)
  from handleExportTexts_blocks[OF start] start show ?thesis
    by (simp add: export_block_def)
qed

subsection \<open>Generating a new text\<close>

lemma handleGenerate_reset_clears:
  "quizAnswers (handleGenerate_reset levelToUse themeToUse moodToUse s) = Map.empty
   \<and> quizScore (handleGenerate_reset levelToUse themeToUse moodToUse s) = None
   \<and> currentQuizQuestion (handleGenerate_reset levelToUse themeToUse moodToUse s) = 0
   \<and> textClozeData (handleGenerate_reset levelToUse themeToUse moodToUse s) = None
   \<and> isTextClozeMode (handleGenerate_reset levelToUse themeToUse moodToUse s) = False
   \<and> generatedText (handleGenerate_reset levelToUse themeToUse moodToUse s) = []
   \<and> translatedSentences (handleGenerate_reset levelToUse themeToUse moodToUse s) = []
   \<and> quizQuestions (handleGenerate_reset levelToUse themeToUse moodToUse s) = []"
  by (simp add: handleGenerate_reset_def)

lemma handleGenerate_speech_unchanged:
  "speakingSentenceIndex (handleGenerate_reset levelToUse themeToUse moodToUse s) = speakingSentenceIndex s
   \<and> isSpeaking (handleGenerate_reset levelToUse themeToUse moodToUse s) = isSpeaking s
   \<and> speakingSentenceIndex (handleGenerate levelToUse themeToUse moodToUse r1 r2 r3 s) = speakingSentenceIndex s
   \<and> isSpeaking (handleGenerate levelToUse themeToUse moodToUse r1 r2 r3 s) = isSpeaking s"
  by (simp add: handleGenerate_def handleGenerate_reset_def generate_failed_def Let_def
      split: sum.splits)

text \<open>
  Claim C8. The generate transition is to clear all prior derived state, the speech
  position included, before it issues the generation calls. Run on the state \<open>demo\<close>, in
  which the second sentence is being read aloud, \<^verbatim>\<open>handleGenerate\<close> issues its first call
  in a state with no sentences, no quiz answers, no score and no cloze data, but with the
  old speech position and the speaking flag still set, and the position is still there
  when all three calls have succeeded. \<^verbatim>\<open>handleStartNewStory\<close> resets both on the same
  state.
\<close>

theorem handleGenerate_reset_speech_position:
  "speakingSentenceIndex demo = Some 1
   \<and> isSpeaking demo = True
   \<and> speakingSentenceIndex (handleGenerate_reset A2 ''Wetter'' ''lustig'' demo) = Some 1
   \<and> isSpeaking (handleGenerate_reset A2 ''Wetter'' ''lustig'' demo) = True
   \<and> translatedSentences (handleGenerate_reset A2 ''Wetter'' ''lustig'' demo) = []
   \<and> quizAnswers (handleGenerate_reset A2 ''Wetter'' ''lustig'' demo) = Map.empty
   \<and> quizScore (handleGenerate_reset A2 ''Wetter'' ''lustig'' demo) = None
   \<and> textClozeData (handleGenerate_reset A2 ''Wetter'' ''lustig'' demo) = None
   \<and> speakingSentenceIndex
         (handleGenerate A2 ''Wetter'' ''lustig'' (Inr ''Es regnet.'')
            (Inr [\<lparr>TranslationPair.german = ''Es regnet.'', TranslationPair.turkish = ''Yagmur yagiyor.''\<rparr>])
            (Inr []) demo) = Some 1
   \<and> speakingSentenceIndex (handleStartNewStory ''neutral'' demo) = None
   \<and> isSpeaking (handleStartNewStory ''neutral'' demo) = False"
  by (simp add: handleGenerate_def handleGenerate_reset_def handleStartNewStory_def demo_def)

section \<open>Properties of the content service\<close>

subsection \<open>Cloze exercises\<close>

text \<open>
  Claim C1 as stated has every returned cloze exercise hold as many blank markers as
  answers, a value that does not being rejected. When the endpoint answers with a cloze
  text of three markers and a list of two answers, both operations return that value.
\<close>

theorem generateClozeTest_counterexample:
  "generateClozeTest (parse_at cloze_reply cloze_value) (Inr cloze_reply) = Inr cloze_value
   \<and> generateClozeTestFromText (parse_at cloze_reply cloze_value) (Inr cloze_reply) = Inr cloze_value
   \<and> field ''clozeText'' cloze_value = Some (JString ''Der [___] ist [___] und [___].'')
   \<and> countOf ''Der [___] ist [___] und [___].'' blankMarker = 3
   \<and> Option.bind (field ''answers'' cloze_value) string_items = Some [''Hund'', ''gross'']
   \<and> \<not> cloze_ok cloze_value"
  by (simp add: generateClozeTest_def generateClozeTestFromText_def await_and_parse_def parse_at_def
      cloze_value_def cloze_ok_def countOf_def blankMarker_def split_def)

text \<open>
  Claim C1, amended. \<^verbatim>\<open>generateClozeTest\<close> and \<^verbatim>\<open>generateClozeTestFromText\<close> return the
  parsed response as it is: each returns a value exactly when the endpoint answered with a
  text that \<^verbatim>\<open>JSON.parse\<close> reads as that value, and each fails, with its own one message,
  exactly when the call threw or the text is not JSON. The blank markers are not counted.
\<close>

theorem generateClozeTest_returns_parsed:
  "(generateClozeTest JSON_parse response = Inr v \<longleftrightarrow>
      (\<exists>txt. response = Inr txt \<and> JSON_parse txt = Some v))
   \<and> (generateClozeTest JSON_parse response = Inl e \<longleftrightarrow>
        e = Error ''Ogrenme modu icerigi olusturulurken bir hata olustu.'' \<and>
        ((\<exists>x. response = Inl x) \<or> (\<exists>txt. response = Inr txt \<and> JSON_parse txt = None)))
   \<and> (generateClozeTestFromText JSON_parse response = Inr v \<longleftrightarrow>
        (\<exists>txt. response = Inr txt \<and> JSON_parse txt = Some v))
   \<and> (generateClozeTestFromText JSON_parse response = Inl e \<longleftrightarrow>
        e = Error ''Metinden ogrenme modu icerigi olusturulurken bir hata olustu.'' \<and>
        ((\<exists>x. response = Inl x) \<or> (\<exists>txt. response = Inr txt \<and> JSON_parse txt = None)))"
  unfolding generateClozeTest_def generateClozeTestFromText_def await_and_parse_def
  by (cases response; cases "JSON_parse (projr response)") auto

theorem generateClozeTest_returns_parsed_witness:
  "generateClozeTest (parse_at cloze_reply cloze_value) (Inr cloze_reply) = Inr cloze_value
   \<and> generateClozeTestFromText (parse_at cloze_reply cloze_value) (Inr prose_reply) =
       Inl (Error ''Metinden ogrenme modu icerigi olusturulurken bir hata olustu.'')"
  using generateClozeTest_returns_parsed[of "parse_at cloze_reply cloze_value" "Inr cloze_reply" cloze_value]
    generateClozeTest_returns_parsed[of "parse_at cloze_reply cloze_value" "Inr prose_reply" _
       "Error ''Metinden ogrenme modu icerigi olusturulurken bir hata olustu.''"]
  by (simp add: parse_at_def cloze_reply_def prose_reply_def)

subsection \<open>Quizzes\<close>

text \<open>
  Claim C2 as stated has every returned question carry exactly four different options with
  the correct answer among them, a violation being a parse failure. When the endpoint
  answers with a question of three options, two of them equal, and a correct answer that
  is none of them, \<^verbatim>\<open>generateQuiz\<close> returns that value.
\<close>

theorem generateQuiz_counterexample:
  "generateQuiz (parse_at quiz_reply quiz_value) (Inr quiz_reply) = Inr quiz_value
   \<and> \<not> quiz_ok quiz_value"
  by (simp add: generateQuiz_def await_and_parse_def parse_at_def quiz_value_def quiz_ok_def
      question_ok_def)

text \<open>
  Claim C2, amended. \<^verbatim>\<open>generateQuiz\<close> returns the parsed response as it is: it returns a
  value exactly when the endpoint answered with a text that \<^verbatim>\<open>JSON.parse\<close> reads as that
  value. It fails with the invalid-response message exactly when a \<^verbatim>\<open>SyntaxError\<close> was
  thrown (by the call or by parsing), and with the general message exactly when the call
  threw anything else. Options and correct answer are not inspected.
\<close>

theorem generateQuiz_returns_parsed:
  "(generateQuiz JSON_parse response = Inr v \<longleftrightarrow>
      (\<exists>txt. response = Inr txt \<and> JSON_parse txt = Some v))
   \<and> (generateQuiz JSON_parse response = Inl e \<longleftrightarrow>
        (e = Error ''Test olusturulamadi cunku modelden gecersiz bir yanit alindi. Lutfen farkli bir metinle tekrar deneyin.'' \<and>
         (response = Inl SyntaxError \<or> (\<exists>txt. response = Inr txt \<and> JSON_parse txt = None)))
        \<or> (e = Error ''Test olusturulurken bir hata olustu.'' \<and> response = Inl OtherError))"
  unfolding generateQuiz_def await_and_parse_def
  by (cases response; cases "JSON_parse (projr response)"; cases "projl response") auto

theorem generateQuiz_returns_parsed_witness:
  "generateQuiz (parse_at quiz_reply quiz_value) (Inr quiz_reply) = Inr quiz_value
   \<and> generateQuiz (parse_at quiz_reply quiz_value) (Inr prose_reply) =
       Inl (Error ''Test olusturulamadi cunku modelden gecersiz bir yanit alindi. Lutfen farkli bir metinle tekrar deneyin.'')
   \<and> generateQuiz (parse_at quiz_reply quiz_value) (Inl OtherError) =
       Inl (Error ''Test olusturulurken bir hata olustu.'')"
  using generateQuiz_returns_parsed[of "parse_at quiz_reply quiz_value" "Inr quiz_reply" quiz_value]
    generateQuiz_returns_parsed[of "parse_at quiz_reply quiz_value" "Inr prose_reply" _
      "Error ''Test olusturulamadi cunku modelden gecersiz bir yanit alindi. Lutfen farkli bir metinle tekrar deneyin.''"]
    generateQuiz_returns_parsed[of "parse_at quiz_reply quiz_value" "Inl OtherError" _
      "Error ''Test olusturulurken bir hata olustu.''"]
  by (simp add: parse_at_def quiz_reply_def prose_reply_def)

subsection \<open>Sentence-by-sentence translation\<close>

text \<open>
  Claim C5 as stated has \<^verbatim>\<open>translateTextSentenceBySentence\<close> check that the parsed
  response is an array whose entries all carry both sentences, and fail otherwise. It
  returns an array whose entry has no \<^verbatim>\<open>turkish\<close>, and it returns a value that is not an
  array.
\<close>

theorem translateTextSentenceBySentence_counterexample:
  "translateTextSentenceBySentence (parse_at pairs_reply pairs_value) (Inr pairs_reply) = Inr pairs_value
   \<and> \<not> pairs_ok pairs_value
   \<and> translateTextSentenceBySentence (parse_at object_reply object_value) (Inr object_reply) = Inr object_value
   \<and> \<not> pairs_ok object_value"
  by (simp add: translateTextSentenceBySentence_def await_and_parse_def parse_at_def
      pairs_value_def object_value_def pairs_ok_def pair_ok_def)

text \<open>
  Claim C5, amended. \<^verbatim>\<open>translateTextSentenceBySentence\<close> returns the parsed response as it
  is: it returns a value exactly when the endpoint answered with a text that
  \<^verbatim>\<open>JSON.parse\<close> reads as that value, and it raises its domain error exactly when the call
  threw or the text is not JSON. The shape of the value is not inspected.
\<close>

theorem translateTextSentenceBySentence_returns_parsed:
  "(translateTextSentenceBySentence JSON_parse response = Inr v \<longleftrightarrow>
      (\<exists>txt. response = Inr txt \<and> JSON_parse txt = Some v))
   \<and> (translateTextSentenceBySentence JSON_parse response = Inl e \<longleftrightarrow>
        e = Error ''Cumle cevirisi sirasinda bir hata olustu.'' \<and>
        ((\<exists>x. response = Inl x) \<or> (\<exists>txt. response = Inr txt \<and> JSON_parse txt = None)))"
  unfolding translateTextSentenceBySentence_def await_and_parse_def
  by (cases response; cases "JSON_parse (projr response)") auto

theorem translateTextSentenceBySentence_returns_parsed_witness:
  "translateTextSentenceBySentence (parse_at pairs_reply pairs_value) (Inr pairs_reply) = Inr pairs_value
   \<and> translateTextSentenceBySentence (parse_at pairs_reply pairs_value) (Inr prose_reply) =
       Inl (Error ''Cumle cevirisi sirasinda bir hata olustu.'')"
  using translateTextSentenceBySentence_returns_parsed[of "parse_at pairs_reply pairs_value" "Inr pairs_reply" pairs_value]
    translateTextSentenceBySentence_returns_parsed[of "parse_at pairs_reply pairs_value" "Inr prose_reply" _
      "Error ''Cumle cevirisi sirasinda bir hata olustu.''"]
  by (simp add: parse_at_def pairs_reply_def prose_reply_def)

subsection \<open>Failures\<close>

text \<open>Every operation that fails does so with a message of its own; the exception that was
  caught is not passed on.\<close>

lemma service_failure_messages:
  "generateText response = Inl e \<Longrightarrow>
     e = Error ''Metin olusturulurken bir hata olustu. Lutfen tekrar deneyin.''"
  "generateRandomTheme trim response = Inl e \<Longrightarrow>
     e = Error ''Rastgele tema olusturulurken bir hata olustu.''"
  "translateText response = Inl e \<Longrightarrow> e = Error ''Ceviri sirasinda bir hata olustu.''"
  "translateWord trim response = Inl e \<Longrightarrow>
     e = Error ''Kelime cevirisi sirasinda bir hata olustu.''"
  "translateTextSentenceBySentence JSON_parse response = Inl e \<Longrightarrow>
     e = Error ''Cumle cevirisi sirasinda bir hata olustu.''"
  "generateQuiz JSON_parse response = Inl e \<Longrightarrow>
     e = Error ''Test olusturulamadi cunku modelden gecersiz bir yanit alindi. Lutfen farkli bir metinle tekrar deneyin.''
     \<or> e = Error ''Test olusturulurken bir hata olustu.''"
  "explainAndExampleWord JSON_parse response = Inl e \<Longrightarrow>
     e = Error ''Kelime aciklanirken bir hata olustu.''"
  "generateClozeTest JSON_parse response = Inl e \<Longrightarrow>
     e = Error ''Ogrenme modu icerigi olusturulurken bir hata olustu.''"
  "generateDistractors JSON_parse response = Inl e \<Longrightarrow>
     e = Error ''Alternatif siklar olusturulurken bir hata olustu.''"
  "generateClozeTestFromText JSON_parse response = Inl e \<Longrightarrow>
     e = Error ''Metinden ogrenme modu icerigi olusturulurken bir hata olustu.''"
  by (auto simp: generateText_def generateRandomTheme_def translateText_def translateWord_def
      translateTextSentenceBySentence_def generateQuiz_def explainAndExampleWord_def
      generateClozeTest_def generateDistractors_def generateClozeTestFromText_def
      split: sum.splits if_splits)

text \<open>Of the six operations that parse a structured response, only \<^verbatim>\<open>generateQuiz\<close> tells a
  text that is not JSON from a call that failed.\<close>

lemma malformed_json_same_as_transport_failure:
  "JSON_parse txt = None \<Longrightarrow>
     translateTextSentenceBySentence JSON_parse (Inr txt) =
       translateTextSentenceBySentence JSON_parse (Inl OtherError)
   \<and> explainAndExampleWord JSON_parse (Inr txt) = explainAndExampleWord JSON_parse (Inl OtherError)
   \<and> generateClozeTest JSON_parse (Inr txt) = generateClozeTest JSON_parse (Inl OtherError)
   \<and> generateDistractors JSON_parse (Inr txt) = generateDistractors JSON_parse (Inl OtherError)
   \<and> generateClozeTestFromText JSON_parse (Inr txt) =
       generateClozeTestFromText JSON_parse (Inl OtherError)
   \<and> generateQuiz JSON_parse (Inr txt) \<noteq> generateQuiz JSON_parse (Inl OtherError)"
  by (simp add: translateTextSentenceBySentence_def explainAndExampleWord_def generateClozeTest_def
      generateDistractors_def generateClozeTestFromText_def generateQuiz_def await_and_parse_def)

text \<open>
  Claim C4. Every operation is to fail with a short message of its own, and every operation
  that parses a structured response is to give a response that is not JSON an error of its
  own kind, different from the one for a failed call. On an answer in prose
  \<^verbatim>\<open>translateTextSentenceBySentence\<close> fails with the very error it gives for a failed
  call, while \<^verbatim>\<open>generateQuiz\<close> on the same answer gives the invalid-response message and
  not its general one.
\<close>

theorem translateTextSentenceBySentence_malformed_json:
  "parse_at pairs_reply pairs_value prose_reply = None
   \<and> translateTextSentenceBySentence (parse_at pairs_reply pairs_value) (Inr prose_reply) =
       Inl (Error ''Cumle cevirisi sirasinda bir hata olustu.'')
   \<and> translateTextSentenceBySentence (parse_at pairs_reply pairs_value) (Inl OtherError) =
       Inl (Error ''Cumle cevirisi sirasinda bir hata olustu.'')
   \<and> generateQuiz (parse_at pairs_reply pairs_value) (Inr prose_reply) =
       Inl (Error ''Test olusturulamadi cunku modelden gecersiz bir yanit alindi. Lutfen farkli bir metinle tekrar deneyin.'')
   \<and> generateQuiz (parse_at pairs_reply pairs_value) (Inl OtherError) =
       Inl (Error ''Test olusturulurken bir hata olustu.'')"
  by (simp add: translateTextSentenceBySentence_def generateQuiz_def await_and_parse_def
      parse_at_def pairs_reply_def prose_reply_def)

end
